theory Spec2Isabelle
  imports Complex_Main
begin

section \<open>Numbers and rows\<close>

text \<open>
  The accounts page (\<^verbatim>\<open>src/pages/Accounts.tsx\<close>) works on JavaScript numbers read
  from the rows of four tables. The numbers are modelled as exact rationals: the
  rounding of IEEE doubles and the values NaN and Infinity are outside the model. A
  numeric field that the code guards with \<^verbatim>\<open>||\<close> is an \<open>option\<close>: \<open>None\<close> stands for a
  value that is absent (\<^verbatim>\<open>undefined\<close>, \<^verbatim>\<open>null\<close>).
\<close>

definition js_or :: "rat option \<Rightarrow> rat \<Rightarrow> rat" where
  \<comment> \<open>\<^verbatim>\<open>v || d\<close> on a number that may be absent: absent and 0 are falsy.\<close>
  "js_or v d = (case v of None \<Rightarrow> d | Some x \<Rightarrow> if x = 0 then d else x)"

record line_item =
  price :: "rat option"
  quantity :: "rat option"
  event_margin :: "rat option"

datatype items_json = ItemsArray "line_item list" | NotAnArray

record billing_transaction =
  t_stall_id :: string
  items :: items_json
  total :: "rat option"

datatype payment_type = Participant | Other

record payment =
  payment_type :: payment_type
  p_stall_id :: "string option"
  amount_paid :: "rat option"
  narration :: "string option"

datatype registration_type = Stall_counter | Employment_booking | Employment_registration

record registration =
  registration_type :: registration_type
  amount :: "rat option"

record stall =
  s_id :: string
  counter_name :: string
  is_verified :: "bool option"
  registration_fee :: "rat option"

section \<open>Per-stall details\<close>

record stall_details =
  billedAmount :: rat
  billBalance :: rat
  alreadyPaid :: rat
  remainingBalance :: rat
  stallName :: string

definition itemBalance :: "line_item \<Rightarrow> rat" where
  "itemBalance item =
     (let itemTotal = js_or (price item) 0 * js_or (quantity item) 1;
          commission = js_or (event_margin item) 20
      in itemTotal * (1 - commission / 100))"

definition txBalance :: "billing_transaction \<Rightarrow> rat" where
  "txBalance tx =
     (let its = (case items tx of ItemsArray xs \<Rightarrow> xs | NotAnArray \<Rightarrow> [])
      in foldl (\<lambda>sum item. sum + itemBalance item) 0 its)"

definition selectedStallDetails ::
  "string \<Rightarrow> billing_transaction list \<Rightarrow> payment list \<Rightarrow> stall list \<Rightarrow> stall_details option" where
  "selectedStallDetails stallId billingTransactions payments stalls =
     (if stallId = [] then None
      else
        let stallTransactions = filter (\<lambda>t. t_stall_id t = stallId) billingTransactions;
            billed = foldl (\<lambda>sum t. sum + js_or (total t) 0) 0 stallTransactions;
            balance = foldl (\<lambda>txSum tx. txSum + txBalance tx) 0 stallTransactions;
            paid = foldl (\<lambda>sum p. sum + js_or (amount_paid p) 0) 0
                     (filter (\<lambda>p. p_stall_id p = Some stallId \<and> payment_type p = Participant)
                        payments);
            remaining = max 0 (balance - paid);
            name = (case find (\<lambda>s. s_id s = stallId) stalls of
                      None \<Rightarrow> ''Unknown''
                    | Some s \<Rightarrow> if counter_name s = [] then ''Unknown'' else counter_name s)
        in Some \<lparr>billedAmount = billed, billBalance = balance, alreadyPaid = paid,
                 remainingBalance = remaining, stallName = name\<rparr>)"

section \<open>Event-wide totals\<close>

text \<open>
  The page reads \<^verbatim>\<open>stalls\<close> with the filter \<^verbatim>\<open>.eq('is_verified', true)\<close>: a row whose
  flag is false or NULL is not returned. The order of the rows (\<^verbatim>\<open>ORDER BY\<close>) is
  left out of the queries: every figure below is a sum, or a lookup by primary key.
\<close>

definition stalls_query :: "stall list \<Rightarrow> stall list" where
  "stalls_query stalls_table = filter (\<lambda>s. is_verified s = Some True) stalls_table"

definition totalBillingCollected :: "billing_transaction list \<Rightarrow> rat" where
  "totalBillingCollected billingTransactions =
     foldl (\<lambda>sum t. sum + js_or (total t) 0) 0 billingTransactions"

definition totalRegistrationCollected :: "registration list \<Rightarrow> rat" where
  "totalRegistrationCollected registrations =
     foldl (\<lambda>sum r. sum + js_or (amount r) 0) 0
       (filter (\<lambda>r. registration_type r \<noteq> Stall_counter) registrations)"

definition stallBookingFees :: "stall list \<Rightarrow> rat" where
  "stallBookingFees stalls = foldl (\<lambda>sum s. sum + js_or (registration_fee s) 0) 0 stalls"

definition totalCollected ::
  "billing_transaction list \<Rightarrow> registration list \<Rightarrow> stall list \<Rightarrow> rat" where
  "totalCollected billingTransactions registrations stalls =
     totalBillingCollected billingTransactions + totalRegistrationCollected registrations
       + stallBookingFees stalls"

definition stallPaymentsTotal :: "payment list \<Rightarrow> rat" where
  "stallPaymentsTotal payments =
     foldl (\<lambda>sum p. sum + js_or (amount_paid p) 0) 0
       (filter (\<lambda>p. payment_type p = Participant) payments)"

definition otherPaymentsTotal :: "payment list \<Rightarrow> rat" where
  "otherPaymentsTotal payments =
     foldl (\<lambda>sum p. sum + js_or (amount_paid p) 0) 0
       (filter (\<lambda>p. payment_type p = Other) payments)"

definition totalPaid :: "payment list \<Rightarrow> rat" where
  "totalPaid payments = otherPaymentsTotal payments"

definition cashBalance ::
  "billing_transaction list \<Rightarrow> registration list \<Rightarrow> stall list \<Rightarrow> payment list \<Rightarrow> rat" where
  "cashBalance billingTransactions registrations stalls payments =
     totalCollected billingTransactions registrations stalls - totalPaid payments"

section \<open>Numeric columns\<close>

text \<open>
  A value stored in a \<^verbatim>\<open>NUMERIC(p,s)\<close> column is rounded to \<open>s\<close> decimal places, ties
  away from zero, and refused when it then needs more than \<open>p\<close> digits. NULL is stored
  as it is; a \<^verbatim>\<open>NOT NULL\<close> column refuses it afterwards.
\<close>

datatype db_error =
  Generated_column_write | Numeric_overflow | Not_null_violation | Unique_violation
  | Foreign_key_violation

definition round_half_away :: "rat \<Rightarrow> int" where
  "round_half_away x = (if 0 \<le> x then \<lfloor>x + 1 / 2\<rfloor> else - \<lfloor>- x + 1 / 2\<rfloor>)"

definition to_numeric :: "nat \<Rightarrow> nat \<Rightarrow> rat \<Rightarrow> db_error + rat" where
  \<comment> \<open>The value as a \<^verbatim>\<open>NUMERIC(p,s)\<close> column stores it.\<close>
  "to_numeric p s x =
     (let n = round_half_away (x * 10 ^ s)
      in if 10 ^ p \<le> \<bar>n\<bar> then Inl Numeric_overflow else Inr (of_int n / 10 ^ s))"

definition store_numeric :: "nat \<Rightarrow> nat \<Rightarrow> rat option \<Rightarrow> db_error + rat option" where
  "store_numeric p s v =
     (case v of
        None \<Rightarrow> Inr None
      | Some x \<Rightarrow> (case to_numeric p s x of Inl e \<Rightarrow> Inl e | Inr y \<Rightarrow> Inr (Some y)))"

section \<open>Recording a payment to a stall\<close>

text \<open>
  The form holds the selected stall and the amount as typed. \<^verbatim>\<open>parseFloat\<close> is the
  JavaScript built-in and a parameter of the model: \<open>None\<close> is its result NaN, which
  compares false with every number. The handler either shows an error (\<open>Inl\<close>) or
  passes a row to the insert mutation (\<open>Inr\<close>).
\<close>

record stallPayment_form =
  stallId :: string
  amountText :: string

definition handleStallPayment ::
  "(string \<Rightarrow> rat option) \<Rightarrow> stallPayment_form \<Rightarrow> billing_transaction list \<Rightarrow> payment list
     \<Rightarrow> stall list \<Rightarrow> string + payment" where
  "handleStallPayment parseFloat stallPayment billingTransactions payments stalls =
     (if stallId stallPayment = [] \<or> amountText stallPayment = []
      then Inl ''Please select a stall and enter amount''
      else
        let amt = parseFloat (amountText stallPayment);
            details = selectedStallDetails (stallId stallPayment) billingTransactions payments stalls
        in if (case details of
                 None \<Rightarrow> False
               | Some d \<Rightarrow> (case amt of None \<Rightarrow> False | Some a \<Rightarrow> a > remainingBalance d))
           then Inl ''Amount exceeds remaining balance''
           else Inr \<lparr>payment_type = Participant,
                     p_stall_id = Some (stallId stallPayment),
                     amount_paid = amt,
                     narration = Some (''Payment to '' @
                       (case details of None \<Rightarrow> ''undefined'' | Some d \<Rightarrow> stallName d))\<rparr>)"

text \<open>
  The mutation inserts the row into \<^verbatim>\<open>payments\<close>, whose schema declares
  \<^verbatim>\<open>amount_paid NUMERIC(10,2) NOT NULL\<close> and
  \<^verbatim>\<open>stall_id UUID REFERENCES public.stalls(id)\<close>: the amount is stored as the column
  stores it, an amount that is absent (NaN is sent as \<^verbatim>\<open>null\<close>) is refused, and so is
  a stall that is not in the stalls table. An insert that is refused throws, the page
  reports the failure and the table is as it was; an insert that succeeds puts the row
  in front of the table, which the page reads newest first. The columns the database
  fills in (id, timestamp, the two unused totals) are left out of the row.
\<close>

definition createPayment :: "stall list \<Rightarrow> payment list \<Rightarrow> payment \<Rightarrow> db_error + payment list" where
  "createPayment stalls_table payments_table row =
     (case store_numeric 10 2 (amount_paid row) of
        Inl e \<Rightarrow> Inl e
      | Inr None \<Rightarrow> Inl Not_null_violation
      | Inr (Some v) \<Rightarrow>
          if (case p_stall_id row of None \<Rightarrow> False
              | Some s \<Rightarrow> s \<notin> set (map s_id stalls_table))
          then Inl Foreign_key_violation
          else Inr (row\<lparr>amount_paid := Some v\<rparr> # payments_table))"

datatype submit_outcome = Rejected string | Failed db_error | Recorded

text \<open>
  One press of the button, on the tables as the page has loaded them: the outcome shown
  and the payments table afterwards.
\<close>

definition submitStallPayment ::
  "(string \<Rightarrow> rat option) \<Rightarrow> stallPayment_form \<Rightarrow> billing_transaction list \<Rightarrow> payment list
     \<Rightarrow> stall list \<Rightarrow> submit_outcome \<times> payment list" where
  "submitStallPayment parseFloat stallPayment billingTransactions payments stalls_table =
     (case handleStallPayment parseFloat stallPayment billingTransactions payments
             (stalls_query stalls_table) of
        Inl msg \<Rightarrow> (Rejected msg, payments)
      | Inr row \<Rightarrow>
          (case createPayment stalls_table payments row of
             Inl e \<Rightarrow> (Failed e, payments)
           | Inr payments' \<Rightarrow> (Recorded, payments')))"

section \<open>The bill balance as the specification words it\<close>

definition spec_item_balance :: "rat \<Rightarrow> rat \<Rightarrow> rat option \<Rightarrow> rat" where
  \<comment> \<open>The specification's formula for one line item: the item's own margin, 20 when absent.\<close>
  "spec_item_balance p q m =
     (let item_total = p * q;
          margin = (case m of None \<Rightarrow> 20 | Some x \<Rightarrow> x)
      in item_total * (1 - margin / 100))"

section \<open>The products table\<close>

text \<open>
  The schema declares
  \<^verbatim>\<open>cost_price NUMERIC(10,2) NOT NULL\<close>,
  \<^verbatim>\<open>event_margin NUMERIC(5,2) DEFAULT 20.00\<close> and
  \<^verbatim>\<open>selling_price NUMERIC(10,2) GENERATED ALWAYS AS (cost_price * (1 + event_margin/100)) STORED\<close>.
  The columns are stored as the section on numeric columns says. The arithmetic of the
  expression is exact (a quotient by 100 of a value of two decimal places has four),
  and an operand that is NULL makes the result NULL. A statement that fails leaves the
  table as it was. The columns that do not enter the expression (the stall, the item
  name, the timestamps) are left out of the row.
\<close>

datatype 'a col = Default | Null | Val 'a

record product =
  product_id :: string
  cost_price :: rat
  margin :: "rat option"  \<comment> \<open>the column \<^verbatim>\<open>event_margin\<close>\<close>
  selling_price :: "rat option"

definition selling_price_expr :: "rat \<Rightarrow> rat option \<Rightarrow> db_error + rat option" where
  \<comment> \<open>The generated column: the expression, stored as \<^verbatim>\<open>NUMERIC(10,2)\<close>.\<close>
  "selling_price_expr cost m =
     store_numeric 10 2 (map_option (\<lambda>em. cost * (1 + em / 100)) m)"

definition make_row :: "string \<Rightarrow> rat option \<Rightarrow> rat option \<Rightarrow> db_error + product" where
  \<comment> \<open>The row written for the given cost price and margin, or the error of the write.\<close>
  "make_row i cost m =
     (case store_numeric 10 2 cost of
        Inl e \<Rightarrow> Inl e
      | Inr c \<Rightarrow>
          (case store_numeric 5 2 m of
             Inl e \<Rightarrow> Inl e
           | Inr em \<Rightarrow>
               (case c of
                  None \<Rightarrow> Inl Not_null_violation
                | Some c' \<Rightarrow>
                    (case selling_price_expr c' em of
                       Inl e \<Rightarrow> Inl e
                     | Inr sp \<Rightarrow>
                         Inr \<lparr>product_id = i, cost_price = c', margin = em,
                              selling_price = sp\<rparr>))))"

record product_insert =
  ins_id :: string
  ins_cost_price :: "rat col"
  ins_event_margin :: "rat col"
  ins_selling_price :: "rat col"

definition insert_product :: "product list \<Rightarrow> product_insert \<Rightarrow> db_error + product list" where
  "insert_product tbl q =
     (if ins_selling_price q \<noteq> Default then Inl Generated_column_write
      else
        (case make_row (ins_id q)
                (case ins_cost_price q of Val c \<Rightarrow> Some c | Null \<Rightarrow> None | Default \<Rightarrow> None)
                (case ins_event_margin q of Val em \<Rightarrow> Some em | Null \<Rightarrow> None
                 | Default \<Rightarrow> Some 20) of
           Inl e \<Rightarrow> Inl e
         | Inr row \<Rightarrow>
             if ins_id q \<in> set (map product_id tbl) then Inl Unique_violation
             else Inr (tbl @ [row])))"

text \<open>
  An update names the rows by a predicate (its \<^verbatim>\<open>WHERE\<close>) and the columns it sets;
  \<open>None\<close> is a column the statement does not mention.
\<close>

record product_update =
  upd_where :: "product \<Rightarrow> bool"
  upd_cost_price :: "rat col option"
  upd_event_margin :: "rat col option"
  upd_selling_price :: "rat col option"

definition update_row :: "product_update \<Rightarrow> product \<Rightarrow> db_error + product" where
  "update_row q r =
     (if \<not> upd_where q r then Inr r
      else make_row (product_id r)
             (case upd_cost_price q of
                None \<Rightarrow> Some (cost_price r)
              | Some (Val c) \<Rightarrow> Some c
              | Some Null \<Rightarrow> None
              | Some Default \<Rightarrow> None)
             (case upd_event_margin q of
                None \<Rightarrow> margin r
              | Some (Val em) \<Rightarrow> Some em
              | Some Null \<Rightarrow> None
              | Some Default \<Rightarrow> Some 20))"

fun map_rows :: "('a \<Rightarrow> db_error + 'b) \<Rightarrow> 'a list \<Rightarrow> db_error + 'b list" where
  "map_rows f [] = Inr []"
| "map_rows f (x # xs) =
     (case f x of
        Inl e \<Rightarrow> Inl e
      | Inr y \<Rightarrow> (case map_rows f xs of Inl e \<Rightarrow> Inl e | Inr ys \<Rightarrow> Inr (y # ys)))"

definition update_products :: "product list \<Rightarrow> product_update \<Rightarrow> db_error + product list" where
  "update_products tbl q =
     (if upd_selling_price q \<noteq> None \<and> upd_selling_price q \<noteq> Some Default
      then Inl Generated_column_write
      else map_rows (update_row q) tbl)"

definition delete_products :: "product list \<Rightarrow> (product \<Rightarrow> bool) \<Rightarrow> product list" where
  "delete_products tbl w = filter (\<lambda>r. \<not> w r) tbl"

datatype product_statement =
  Insert product_insert | Update product_update | Delete "product \<Rightarrow> bool"

fun exec :: "product list \<Rightarrow> product_statement \<Rightarrow> product list" where
  "exec tbl (Insert q) = (case insert_product tbl q of Inl e \<Rightarrow> tbl | Inr tbl' \<Rightarrow> tbl')"
| "exec tbl (Update q) = (case update_products tbl q of Inl e \<Rightarrow> tbl | Inr tbl' \<Rightarrow> tbl')"
| "exec tbl (Delete w) = delete_products tbl w"

definition run :: "product_statement list \<Rightarrow> product list" where
  \<comment> \<open>The table after the statements, from the empty table.\<close>
  "run stmts = foldl exec [] stmts"

definition round2 :: "rat \<Rightarrow> rat" where
  "round2 x = of_int (round_half_away (x * 100)) / 100"

definition row_ok :: "product \<Rightarrow> bool" where
  "row_ok r =
     (selling_price r = map_option (\<lambda>em. round2 (cost_price r * (1 + em / 100))) (margin r))"

definition products_inv :: "product list \<Rightarrow> bool" where
  "products_inv tbl = list_all row_ok tbl"

definition spec_selling_price :: "rat \<Rightarrow> rat \<Rightarrow> rat" where
  \<comment> \<open>The selling price as the specification words it.\<close>
  "spec_selling_price cost em = cost * (1 + em / 100)"

section \<open>Reduce as a sum\<close>

lemma foldl_plus_sum_list:
  fixes f :: "'a \<Rightarrow> rat"
  shows "foldl (\<lambda>s x. s + f x) a xs = a + sum_list (map f xs)"
  by (induction xs arbitrary: a) (simp_all add: add.assoc)

lemma txBalance_sum:
  "txBalance tx =
     sum_list (map itemBalance (case items tx of ItemsArray xs \<Rightarrow> xs | NotAnArray \<Rightarrow> []))"
  by (simp add: txBalance_def foldl_plus_sum_list)

lemma selectedStallDetails_Some:
  assumes "sid \<noteq> []"
  shows "\<exists>d. selectedStallDetails sid txs ps stalls = Some d"
  using assms by (simp add: selectedStallDetails_def Let_def)

lemma billBalance_sum:
  assumes "selectedStallDetails sid txs ps stalls = Some d"
  shows "billBalance d = sum_list (map txBalance (filter (\<lambda>t. t_stall_id t = sid) txs))"
  using assms
  by (auto simp: selectedStallDetails_def Let_def foldl_plus_sum_list split: if_splits)

lemma billedAmount_sum:
  assumes "selectedStallDetails sid txs ps stalls = Some d"
  shows "billedAmount d =
           sum_list (map (\<lambda>t. js_or (total t) 0) (filter (\<lambda>t. t_stall_id t = sid) txs))"
  using assms
  by (auto simp: selectedStallDetails_def Let_def foldl_plus_sum_list split: if_splits)

lemma alreadyPaid_sum:
  assumes "selectedStallDetails sid txs ps stalls = Some d"
  shows "alreadyPaid d =
           sum_list (map (\<lambda>p. js_or (amount_paid p) 0)
             (filter (\<lambda>p. p_stall_id p = Some sid \<and> payment_type p = Participant) ps))"
  using assms
  by (auto simp: selectedStallDetails_def Let_def foldl_plus_sum_list split: if_splits)

lemma remainingBalance_max:
  assumes "selectedStallDetails sid txs ps stalls = Some d"
  shows "remainingBalance d = max 0 (billBalance d - alreadyPaid d)"
  using assms
  by (auto simp: selectedStallDetails_def Let_def split: if_splits)

lemma js_or_0: "js_or v 0 = (case v of None \<Rightarrow> 0 | Some x \<Rightarrow> x)"
  by (simp add: js_or_def split: option.splits)

lemma itemBalance_formula:
  "itemBalance item =
     (case price item of None \<Rightarrow> 0 | Some p \<Rightarrow> p)
     * (case quantity item of None \<Rightarrow> 1 | Some q \<Rightarrow> if q = 0 then 1 else q)
     * (1 - (case event_margin item of None \<Rightarrow> 20 | Some m \<Rightarrow> if m = 0 then 20 else m) / 100)"
  by (simp add: itemBalance_def js_or_def Let_def split: option.splits)

section \<open>The bill balance\<close>

text \<open>
  C1. The bill balance is to apply to each line item its own stored margin, 20 only
  when the margin is absent. The code reads the margin with
  \<^verbatim>\<open>item.event_margin || 20\<close>, which also replaces a stored margin of 0: for one item of
  price 100, quantity 2 and stored margin 0 the computed bill balance is 160, where the
  item's own margin gives 100 \<times> 2 \<times> (1 - 0/100) = 200.
\<close>

theorem billBalance_stored_margin_zero:
  "map_option billBalance
     (selectedStallDetails ''S''
        [\<lparr>t_stall_id = ''S'',
          items = ItemsArray [\<lparr>price = Some 100, quantity = Some 2, event_margin = Some 0\<rparr>],
          total = Some 200\<rparr>] [] []) = Some 160
   \<and> spec_item_balance 100 2 (Some 0) = 200"
  by (simp add: selectedStallDetails_def txBalance_def itemBalance_def js_or_def
        spec_item_balance_def Let_def)

section \<open>The remaining balance\<close>

text \<open>
  C2. For a selected stall the remaining balance is max(0, bill balance - already
  paid), where already paid is the sum of \<^verbatim>\<open>amount_paid\<close> over the payments of type
  participant of that stall; it is 0 whenever already paid reaches the bill balance,
  and it is never negative.
\<close>

theorem remainingBalance_floor:
  assumes "sid \<noteq> []"
  shows "\<exists>d. selectedStallDetails sid txs ps stalls = Some d
           \<and> alreadyPaid d =
               (\<Sum>p\<leftarrow>filter (\<lambda>p. p_stall_id p = Some sid \<and> payment_type p = Participant) ps.
                   case amount_paid p of None \<Rightarrow> 0 | Some a \<Rightarrow> a)
           \<and> remainingBalance d = max 0 (billBalance d - alreadyPaid d)
           \<and> (billBalance d \<le> alreadyPaid d \<longrightarrow> remainingBalance d = 0)
           \<and> 0 \<le> remainingBalance d"
proof -
  obtain d where d: "selectedStallDetails sid txs ps stalls = Some d"
    using selectedStallDetails_Some [OF assms] by blast
  have paid: "alreadyPaid d =
      (\<Sum>p\<leftarrow>filter (\<lambda>p. p_stall_id p = Some sid \<and> payment_type p = Participant) ps.
          case amount_paid p of None \<Rightarrow> 0 | Some a \<Rightarrow> a)"
    using alreadyPaid_sum [OF d] by (simp add: js_or_0)
  have rem: "remainingBalance d = max 0 (billBalance d - alreadyPaid d)"
    by (rule remainingBalance_max [OF d])
  from rem have "billBalance d \<le> alreadyPaid d \<longrightarrow> remainingBalance d = 0"
    by simp
  moreover from rem have "0 \<le> remainingBalance d"
    by simp
  ultimately show ?thesis using d paid rem by blast
qed

text \<open>
  The theorem at a stall owed 160 and paid 150 + 50 (a payment of type other in
  between is not counted): already paid exceeds the bill balance, the remaining
  balance is 0.
\<close>

theorem remainingBalance_floor_witness:
  "''S'' \<noteq> [] \<and>
   (\<exists>d. selectedStallDetails ''S''
        [\<lparr>t_stall_id = ''S'',
          items = ItemsArray [\<lparr>price = Some 100, quantity = Some 2, event_margin = Some 20\<rparr>],
          total = Some 160\<rparr>]
        [\<lparr>payment_type = Participant, p_stall_id = Some ''S'', amount_paid = Some 150,
          narration = None\<rparr>,
         \<lparr>payment_type = Other, p_stall_id = None, amount_paid = Some 1000,
          narration = Some ''tent''\<rparr>,
         \<lparr>payment_type = Participant, p_stall_id = Some ''S'', amount_paid = Some 50,
          narration = None\<rparr>]
        [] = Some d
      \<and> billBalance d = 160 \<and> alreadyPaid d = 200 \<and> remainingBalance d = 0)"
proof -
  let ?txs = "[\<lparr>t_stall_id = ''S'',
          items = ItemsArray [\<lparr>price = Some 100, quantity = Some 2, event_margin = Some 20\<rparr>],
          total = Some 160\<rparr>]"
  let ?ps = "[\<lparr>payment_type = Participant, p_stall_id = Some ''S'', amount_paid = Some 150,
          narration = None\<rparr>,
         \<lparr>payment_type = Other, p_stall_id = None, amount_paid = Some 1000,
          narration = Some ''tent''\<rparr>,
         \<lparr>payment_type = Participant, p_stall_id = Some ''S'', amount_paid = Some 50,
          narration = None\<rparr>]"
  have ne: "''S'' \<noteq> []" by simp
  obtain d where d: "selectedStallDetails ''S'' ?txs ?ps [] = Some d"
    and paid: "alreadyPaid d =
               (\<Sum>p\<leftarrow>filter (\<lambda>p. p_stall_id p = Some ''S'' \<and> payment_type p = Participant) ?ps.
                   case amount_paid p of None \<Rightarrow> 0 | Some a \<Rightarrow> a)"
    and zero: "billBalance d \<le> alreadyPaid d \<longrightarrow> remainingBalance d = 0"
    using remainingBalance_floor [OF ne, of ?txs ?ps "[]"] by blast
  have bal: "billBalance d = 160"
    using billBalance_sum [OF d] by (simp add: txBalance_def itemBalance_def js_or_def)
  have p200: "alreadyPaid d = 200"
    using paid by simp
  from zero bal p200 have "remainingBalance d = 0" by simp
  with d bal p200 ne show ?thesis by blast
qed

section \<open>The event-wide figures\<close>

lemma foldl_js_or_0:
  "foldl (\<lambda>sum x. sum + js_or (f x) 0) 0 xs = (\<Sum>x\<leftarrow>xs. case f x of None \<Rightarrow> 0 | Some a \<Rightarrow> a)"
  by (simp add: foldl_plus_sum_list js_or_0)

text \<open>
  C4. The total paid is the sum of \<^verbatim>\<open>amount_paid\<close> over the payments of type other
  only: a list of participant payments has total paid 0, a participant payment put
  anywhere into the payments leaves the total paid as it was, and the cash balance is
  the total collected minus the total paid.
\<close>

theorem totalPaid_other_only:
  "totalPaid ps = (\<Sum>p\<leftarrow>filter (\<lambda>p. payment_type p = Other) ps.
                     case amount_paid p of None \<Rightarrow> 0 | Some a \<Rightarrow> a)
   \<and> totalPaid (filter (\<lambda>p. payment_type p = Participant) ps) = 0
   \<and> totalPaid (ps @ \<lparr>payment_type = Participant, p_stall_id = s, amount_paid = a, narration = n\<rparr> # qs)
       = totalPaid (ps @ qs)
   \<and> cashBalance txs regs stalls ps = totalCollected txs regs stalls - totalPaid ps"
  by (simp add: totalPaid_def otherPaymentsTotal_def cashBalance_def foldl_js_or_0)

text \<open>
  C5. The total collected is the total billing collected plus the total registration
  collected plus the stall booking fees, where the total billing collected is the sum
  of \<^verbatim>\<open>total\<close> over all billing transactions and the total registration collected is
  the sum of \<^verbatim>\<open>amount\<close> over the registrations whose type is not stall-counter booking;
  the stall booking fees are the sum of \<^verbatim>\<open>registration_fee\<close> over the stalls loaded.
\<close>

theorem totalCollected_sum:
  "totalCollected txs regs stalls =
     totalBillingCollected txs + totalRegistrationCollected regs + stallBookingFees stalls
   \<and> totalBillingCollected txs = (\<Sum>t\<leftarrow>txs. case total t of None \<Rightarrow> 0 | Some a \<Rightarrow> a)
   \<and> totalRegistrationCollected regs =
       (\<Sum>r\<leftarrow>filter (\<lambda>r. registration_type r \<noteq> Stall_counter) regs.
          case amount r of None \<Rightarrow> 0 | Some a \<Rightarrow> a)
   \<and> stallBookingFees stalls =
       (\<Sum>s\<leftarrow>stalls. case registration_fee s of None \<Rightarrow> 0 | Some f \<Rightarrow> f)"
  by (simp add: totalCollected_def totalBillingCollected_def totalRegistrationCollected_def
        stallBookingFees_def foldl_js_or_0)

section \<open>One more payment to a stall\<close>

text \<open>
  C6. One more participant payment of a non-negative amount for the selected stall,
  put anywhere into the payments (at the end in particular), adds its amount to already
  paid and never increases the remaining balance.
\<close>

theorem remainingBalance_antimono:
  assumes "sid \<noteq> []"
    and "payment_type p = Participant" and "p_stall_id p = Some sid"
    and "amount_paid p = Some a" and "0 \<le> a"
  shows "\<exists>d d'. selectedStallDetails sid txs (ps @ qs) stalls = Some d
           \<and> selectedStallDetails sid txs (ps @ p # qs) stalls = Some d'
           \<and> alreadyPaid d' = alreadyPaid d + a
           \<and> remainingBalance d' \<le> remainingBalance d"
proof -
  obtain d where d: "selectedStallDetails sid txs (ps @ qs) stalls = Some d"
    using selectedStallDetails_Some [OF assms(1)] by blast
  obtain d' where d': "selectedStallDetails sid txs (ps @ p # qs) stalls = Some d'"
    using selectedStallDetails_Some [OF assms(1)] by blast
  have bal: "billBalance d' = billBalance d"
    by (simp add: billBalance_sum [OF d] billBalance_sum [OF d'])
  have "js_or (amount_paid p) 0 = a"
    using assms(4) by (simp add: js_or_0)
  then have paid: "alreadyPaid d' = alreadyPaid d + a"
    using assms(2,3) by (simp add: alreadyPaid_sum [OF d] alreadyPaid_sum [OF d'])
  have "remainingBalance d' \<le> remainingBalance d"
    using bal paid assms(5)
    by (simp add: remainingBalance_max [OF d] remainingBalance_max [OF d'])
  with d d' paid show ?thesis by blast
qed

text \<open>
  The theorem at a stall owed 160 with 30 paid: a further payment of 50 brings the
  remaining balance from 130 down to 80.
\<close>

theorem remainingBalance_antimono_witness:
  "''S'' \<noteq> [] \<and> (0::rat) \<le> 50 \<and>
   (\<exists>d d'. selectedStallDetails ''S''
        [\<lparr>t_stall_id = ''S'',
          items = ItemsArray [\<lparr>price = Some 100, quantity = Some 2, event_margin = Some 20\<rparr>],
          total = Some 160\<rparr>]
        ([\<lparr>payment_type = Participant, p_stall_id = Some ''S'', amount_paid = Some 30,
           narration = None\<rparr>] @ []) [] = Some d
      \<and> selectedStallDetails ''S''
        [\<lparr>t_stall_id = ''S'',
          items = ItemsArray [\<lparr>price = Some 100, quantity = Some 2, event_margin = Some 20\<rparr>],
          total = Some 160\<rparr>]
        ([\<lparr>payment_type = Participant, p_stall_id = Some ''S'', amount_paid = Some 30,
           narration = None\<rparr>]
         @ \<lparr>payment_type = Participant, p_stall_id = Some ''S'', amount_paid = Some 50,
           narration = None\<rparr> # []) [] = Some d'
      \<and> remainingBalance d = 130 \<and> remainingBalance d' = 80
      \<and> remainingBalance d' \<le> remainingBalance d)"
proof -
  let ?txs = "[\<lparr>t_stall_id = ''S'',
          items = ItemsArray [\<lparr>price = Some 100, quantity = Some 2, event_margin = Some 20\<rparr>],
          total = Some 160\<rparr>]"
  let ?ps = "[\<lparr>payment_type = Participant, p_stall_id = Some ''S'', amount_paid = Some 30,
           narration = None\<rparr>]"
  let ?p = "\<lparr>payment_type = Participant, p_stall_id = Some ''S'', amount_paid = Some (50::rat),
           narration = None\<rparr>"
  have ne: "''S'' \<noteq> []" by simp
  have nn: "(0::rat) \<le> 50" by simp
  obtain d d' where d: "selectedStallDetails ''S'' ?txs (?ps @ []) [] = Some d"
    and d': "selectedStallDetails ''S'' ?txs (?ps @ ?p # []) [] = Some d'"
    and le: "remainingBalance d' \<le> remainingBalance d"
    using remainingBalance_antimono [OF ne _ _ _ nn, of ?p ?txs ?ps "[]" "[]"] by auto
  have r: "remainingBalance d = 130"
    using d by (auto simp: selectedStallDetails_def txBalance_def itemBalance_def js_or_def Let_def)
  have r': "remainingBalance d' = 80"
    using d' by (auto simp: selectedStallDetails_def txBalance_def itemBalance_def js_or_def Let_def)
  from ne nn d d' le r r' show ?thesis by blast
qed

section \<open>A stall without billing transactions\<close>

text \<open>
  C7 (as amended). For a selected stall that has no billing transaction in the
  collection, the billed amount and the bill balance are 0 whatever payments exist,
  and the remaining balance is max(0, - already paid): it is 0 whenever the
  participant payments of the stall sum to a non-negative amount.
\<close>

theorem no_transactions_zero:
  assumes "sid \<noteq> []" and "\<forall>t \<in> set txs. t_stall_id t \<noteq> sid"
  shows "\<exists>d. selectedStallDetails sid txs ps stalls = Some d
           \<and> billedAmount d = 0 \<and> billBalance d = 0
           \<and> remainingBalance d = max 0 (- alreadyPaid d)
           \<and> (0 \<le> alreadyPaid d \<longrightarrow> remainingBalance d = 0)"
proof -
  obtain d where d: "selectedStallDetails sid txs ps stalls = Some d"
    using selectedStallDetails_Some [OF assms(1)] by blast
  have none: "filter (\<lambda>t. t_stall_id t = sid) txs = []"
    using assms(2) by (simp add: filter_empty_conv)
  have billed: "billedAmount d = 0"
    by (simp add: billedAmount_sum [OF d] none)
  have bal: "billBalance d = 0"
    by (simp add: billBalance_sum [OF d] none)
  have rem: "remainingBalance d = max 0 (- alreadyPaid d)"
    by (simp add: remainingBalance_max [OF d] bal)
  then have "0 \<le> alreadyPaid d \<longrightarrow> remainingBalance d = 0"
    by simp
  with d billed bal rem show ?thesis by blast
qed

text \<open>
  The theorem at a stall whose only payments sum to 30, in a collection that holds a
  transaction of another stall only.
\<close>

theorem no_transactions_zero_witness:
  "''S'' \<noteq> [] \<and>
   (\<exists>d. selectedStallDetails ''S''
        [\<lparr>t_stall_id = ''T'',
          items = ItemsArray [\<lparr>price = Some 100, quantity = Some 2, event_margin = Some 20\<rparr>],
          total = Some 160\<rparr>]
        [\<lparr>payment_type = Participant, p_stall_id = Some ''S'', amount_paid = Some 30,
          narration = None\<rparr>] [] = Some d
      \<and> billedAmount d = 0 \<and> billBalance d = 0 \<and> alreadyPaid d = 30 \<and> remainingBalance d = 0)"
proof -
  let ?txs = "[\<lparr>t_stall_id = ''T'',
          items = ItemsArray [\<lparr>price = Some 100, quantity = Some 2, event_margin = Some 20\<rparr>],
          total = Some 160\<rparr>]"
  let ?ps = "[\<lparr>payment_type = Participant, p_stall_id = Some ''S'', amount_paid = Some 30,
          narration = None\<rparr>]"
  have ne: "''S'' \<noteq> []" by simp
  have other: "\<forall>t \<in> set ?txs. t_stall_id t \<noteq> ''S''" by simp
  obtain d where d: "selectedStallDetails ''S'' ?txs ?ps [] = Some d"
    and z: "billedAmount d = 0" "billBalance d = 0"
    and imp: "0 \<le> alreadyPaid d \<longrightarrow> remainingBalance d = 0"
    using no_transactions_zero [OF ne other, of ?ps "[]"] by blast
  have paid: "alreadyPaid d = 30"
    using alreadyPaid_sum [OF d] by (simp add: js_or_def)
  with imp have "remainingBalance d = 0" by simp
  with ne d z paid show ?thesis by blast
qed

text \<open>
  C7 as stated fails where a participant payment of the stall has a negative amount
  (the payment handler records one: -5 does not exceed any remaining balance): with no
  billing transaction and one payment of -5 the remaining balance is 5.
\<close>

theorem no_transactions_negative_payment_counterexample:
  "map_option remainingBalance
     (selectedStallDetails ''S'' []
        [\<lparr>payment_type = Participant, p_stall_id = Some ''S'', amount_paid = Some (-5),
          narration = None\<rparr>] []) = Some 5"
  by (simp add: selectedStallDetails_def js_or_def Let_def)

section \<open>The stall booking fees\<close>

text \<open>
  C8 (as amended). The stall booking fees figure is the sum of \<^verbatim>\<open>registration_fee\<close>
  over the verified stalls, the only ones the page loads; an absent fee counts as 0.
\<close>

theorem stallBookingFees_verified:
  "stallBookingFees (stalls_query stalls_table) =
     (\<Sum>s\<leftarrow>filter (\<lambda>s. is_verified s = Some True) stalls_table.
        case registration_fee s of None \<Rightarrow> 0 | Some f \<Rightarrow> f)"
  by (simp add: stallBookingFees_def stalls_query_def foldl_js_or_0)

text \<open>
  C8 as stated fails on a table with an unverified stall: of the fees 500 (verified)
  and 300 (not verified) the figure holds 500, the sum over all stalls is 800.
\<close>

theorem stallBookingFees_unverified_counterexample:
  "stallBookingFees (stalls_query
      [\<lparr>s_id = ''a'', counter_name = ''A1'', is_verified = Some True, registration_fee = Some 500\<rparr>,
       \<lparr>s_id = ''b'', counter_name = ''B1'', is_verified = Some False, registration_fee = Some 300\<rparr>])
     = 500
   \<and> (\<Sum>s\<leftarrow>[\<lparr>s_id = ''a'', counter_name = ''A1'', is_verified = Some True, registration_fee = Some 500\<rparr>,
          \<lparr>s_id = ''b'', counter_name = ''B1'', is_verified = Some False, registration_fee = Some 300\<rparr>].
        case registration_fee s of None \<Rightarrow> 0 | Some f \<Rightarrow> f) = (800::rat)"
  by (simp add: stallBookingFees_def stalls_query_def js_or_def)

section \<open>Defaults of a line item\<close>

text \<open>
  C10. The bill balance of a selected stall is the sum over the transactions of the
  stall, where a transaction whose items are not an array adds 0 and any other adds,
  for each of its line items, price \<times> quantity \<times> (1 - margin/100) with these
  defaults: a price that is absent counts as 0 (as a price 0 does), a quantity that is
  absent or 0 counts as 1, a margin that is absent or 0 counts as 20.
\<close>

theorem falsy_defaults:
  assumes "sid \<noteq> []"
  shows "map_option billBalance (selectedStallDetails sid txs ps stalls) =
     Some (\<Sum>tx\<leftarrow>filter (\<lambda>t. t_stall_id t = sid) txs.
            case items tx of
              NotAnArray \<Rightarrow> 0
            | ItemsArray its \<Rightarrow>
                (\<Sum>item\<leftarrow>its.
                   (case price item of None \<Rightarrow> 0 | Some p \<Rightarrow> p)
                   * (case quantity item of None \<Rightarrow> 1 | Some q \<Rightarrow> if q = 0 then 1 else q)
                   * (1 - (case event_margin item of None \<Rightarrow> 20
                           | Some m \<Rightarrow> if m = 0 then 20 else m) / 100)))"
proof -
  obtain d where d: "selectedStallDetails sid txs ps stalls = Some d"
    using selectedStallDetails_Some [OF assms] by blast
  have tx: "txBalance tx =
      (case items tx of
         NotAnArray \<Rightarrow> 0
       | ItemsArray its \<Rightarrow>
           (\<Sum>item\<leftarrow>its.
              (case price item of None \<Rightarrow> 0 | Some p \<Rightarrow> p)
              * (case quantity item of None \<Rightarrow> 1 | Some q \<Rightarrow> if q = 0 then 1 else q)
              * (1 - (case event_margin item of None \<Rightarrow> 20
                      | Some m \<Rightarrow> if m = 0 then 20 else m) / 100)))" for tx
  proof (cases "items tx")
    case (ItemsArray its)
    have "sum_list (map itemBalance its) =
        (\<Sum>item\<leftarrow>its.
              (case price item of None \<Rightarrow> 0 | Some p \<Rightarrow> p)
              * (case quantity item of None \<Rightarrow> 1 | Some q \<Rightarrow> if q = 0 then 1 else q)
              * (1 - (case event_margin item of None \<Rightarrow> 20
                      | Some m \<Rightarrow> if m = 0 then 20 else m) / 100))"
      by (rule arg_cong [where f = sum_list], rule map_cong, rule refl,
          rule itemBalance_formula)
    then show ?thesis
      by (simp add: txBalance_sum ItemsArray)
  next
    case NotAnArray
    then show ?thesis
      by (simp add: txBalance_sum)
  qed
  have "billBalance d = sum_list (map txBalance (filter (\<lambda>t. t_stall_id t = sid) txs))"
    by (rule billBalance_sum [OF d])
  also have "\<dots> =
      (\<Sum>tx\<leftarrow>filter (\<lambda>t. t_stall_id t = sid) txs.
            case items tx of
              NotAnArray \<Rightarrow> 0
            | ItemsArray its \<Rightarrow>
                (\<Sum>item\<leftarrow>its.
                   (case price item of None \<Rightarrow> 0 | Some p \<Rightarrow> p)
                   * (case quantity item of None \<Rightarrow> 1 | Some q \<Rightarrow> if q = 0 then 1 else q)
                   * (1 - (case event_margin item of None \<Rightarrow> 20
                           | Some m \<Rightarrow> if m = 0 then 20 else m) / 100)))"
    by (rule arg_cong [where f = sum_list], rule map_cong, rule refl, rule tx)
  finally show ?thesis
    by (simp add: d)
qed

text \<open>
  The theorem at a stall with one transaction of four line items (no price: 0;
  quantity 0: 50 \<times> 1 \<times> 0.9 = 45; no quantity and no margin: 50 \<times> 1 \<times> 0.8 = 40;
  margin 0: 100 \<times> 2 \<times> 0.8 = 160), one transaction whose items are not an array, and a
  transaction of another stall: the bill balance is 245.
\<close>

theorem falsy_defaults_witness:
  "''S'' \<noteq> [] \<and>
   map_option billBalance
     (selectedStallDetails ''S''
        [\<lparr>t_stall_id = ''S'',
          items = ItemsArray [\<lparr>price = None, quantity = Some 3, event_margin = Some 10\<rparr>,
                              \<lparr>price = Some 50, quantity = Some 0, event_margin = Some 10\<rparr>,
                              \<lparr>price = Some 50, quantity = None, event_margin = None\<rparr>,
                              \<lparr>price = Some 100, quantity = Some 2, event_margin = Some 0\<rparr>],
          total = Some 300\<rparr>,
         \<lparr>t_stall_id = ''S'', items = NotAnArray, total = Some 10\<rparr>,
         \<lparr>t_stall_id = ''T'',
          items = ItemsArray [\<lparr>price = Some 7, quantity = Some 1, event_margin = None\<rparr>],
          total = Some 7\<rparr>]
        [\<lparr>payment_type = Participant, p_stall_id = Some ''S'', amount_paid = Some 50,
          narration = None\<rparr>]
        []) = Some 245"
  using falsy_defaults [of "''S''"
        "[\<lparr>t_stall_id = ''S'',
          items = ItemsArray [\<lparr>price = None, quantity = Some 3, event_margin = Some 10\<rparr>,
                              \<lparr>price = Some 50, quantity = Some 0, event_margin = Some 10\<rparr>,
                              \<lparr>price = Some 50, quantity = None, event_margin = None\<rparr>,
                              \<lparr>price = Some 100, quantity = Some 2, event_margin = Some 0\<rparr>],
          total = Some 300\<rparr>,
         \<lparr>t_stall_id = ''S'', items = NotAnArray, total = Some 10\<rparr>,
         \<lparr>t_stall_id = ''T'',
          items = ItemsArray [\<lparr>price = Some 7, quantity = Some 1, event_margin = None\<rparr>],
          total = Some 7\<rparr>]"
        "[\<lparr>payment_type = Participant, p_stall_id = Some ''S'', amount_paid = Some 50,
          narration = None\<rparr>]" "[]"]
  by simp

section \<open>The guard of the payment handler\<close>

lemma createPayment_stored:
  assumes "amount_paid row = Some a" and "to_numeric 10 2 a = Inr v"
    and "p_stall_id row = Some s" and "s \<in> set (map s_id stalls_table)"
  shows "createPayment stalls_table ps row = Inr (row\<lparr>amount_paid := Some v\<rparr> # ps)"
  using assms by (simp add: createPayment_def store_numeric_def)

text \<open>
  C3. With a stall selected and an amount typed that parses to a number, a payment
  whose amount exceeds the remaining balance of the stall is rejected with the message
  of the validation, before any write: the payments table is as it was. A payment whose
  amount is at most the remaining balance passes the validation: the handler hands the
  row of type participant for that stall to the insert. Where the insert is refused the
  failure is reported and the table is as it was; where the stall is in the stalls
  table and the amount fits the column the row is recorded, its amount as
  \<^verbatim>\<open>NUMERIC(10,2)\<close> stores it.
\<close>

theorem handleStallPayment_guard:
  assumes "stallId f \<noteq> []" and "amountText f \<noteq> []"
    and "parseFloat (amountText f) = Some a"
  shows "\<exists>d. selectedStallDetails (stallId f) txs ps (stalls_query tbl) = Some d
     \<and> (remainingBalance d < a \<longrightarrow>
          handleStallPayment parseFloat f txs ps (stalls_query tbl)
            = Inl ''Amount exceeds remaining balance''
          \<and> submitStallPayment parseFloat f txs ps tbl
            = (Rejected ''Amount exceeds remaining balance'', ps))
     \<and> (a \<le> remainingBalance d \<longrightarrow>
          handleStallPayment parseFloat f txs ps (stalls_query tbl) =
            Inr \<lparr>payment_type = Participant, p_stall_id = Some (stallId f), amount_paid = Some a,
                 narration = Some (''Payment to '' @ stallName d)\<rparr>
          \<and> (createPayment tbl ps
                 \<lparr>payment_type = Participant, p_stall_id = Some (stallId f),
                  amount_paid = Some a, narration = Some (''Payment to '' @ stallName d)\<rparr>
               = Inl e \<longrightarrow>
                submitStallPayment parseFloat f txs ps tbl = (Failed e, ps))
          \<and> (to_numeric 10 2 a = Inr v \<and> stallId f \<in> set (map s_id tbl) \<longrightarrow>
                submitStallPayment parseFloat f txs ps tbl =
                  (Recorded,
                   \<lparr>payment_type = Participant, p_stall_id = Some (stallId f),
                    amount_paid = Some v, narration = Some (''Payment to '' @ stallName d)\<rparr>
                   # ps)))"
proof -
  let ?stalls = "stalls_query tbl"
  obtain d where d: "selectedStallDetails (stallId f) txs ps ?stalls = Some d"
    using selectedStallDetails_Some [OF assms(1)] by blast
  let ?row = "\<lparr>payment_type = Participant, p_stall_id = Some (stallId f), amount_paid = Some a,
                narration = Some (''Payment to '' @ stallName d)\<rparr>"
  have rej: "handleStallPayment parseFloat f txs ps ?stalls = Inl ''Amount exceeds remaining balance''"
    if "remainingBalance d < a"
    using that assms d by (simp add: handleStallPayment_def)
  have acc: "handleStallPayment parseFloat f txs ps ?stalls = Inr ?row"
    if "a \<le> remainingBalance d"
    using that assms d by (simp add: handleStallPayment_def)
  have rej_sub: "submitStallPayment parseFloat f txs ps tbl
      = (Rejected ''Amount exceeds remaining balance'', ps)"
    if "remainingBalance d < a"
    using rej [OF that] by (simp add: submitStallPayment_def)
  have acc_sub: "submitStallPayment parseFloat f txs ps tbl =
      (case createPayment tbl ps ?row of Inl e \<Rightarrow> (Failed e, ps) | Inr ps' \<Rightarrow> (Recorded, ps'))"
    if "a \<le> remainingBalance d"
    using acc [OF that] by (simp add: submitStallPayment_def)
  have stored: "submitStallPayment parseFloat f txs ps tbl =
      (Recorded, ?row\<lparr>amount_paid := Some v\<rparr> # ps)"
    if "a \<le> remainingBalance d" and "to_numeric 10 2 a = Inr v"
      and "stallId f \<in> set (map s_id tbl)"
    using acc_sub [OF that(1)] createPayment_stored [of ?row a v "stallId f" tbl ps] that(2,3)
    by simp
  have failed: "submitStallPayment parseFloat f txs ps tbl = (Failed e, ps)"
    if "a \<le> remainingBalance d" and "createPayment tbl ps ?row = Inl e"
    using acc_sub [OF that(1)] that(2) by simp
  show ?thesis
    using d rej rej_sub acc failed stored by (intro exI [of _ d]) simp
qed

text \<open>
  The theorem at a stall owed 160 with 50 paid, so 110 remaining: the amount 500 is
  rejected and nothing is written; the amount 50.555 passes and is recorded as 50.56;
  the amount -1000000000 passes, the column refuses it and the table is as it was.
\<close>

theorem handleStallPayment_guard_witness:
  "''S'' \<noteq> [] \<and> ''500'' \<noteq> [] \<and> ''50.555'' \<noteq> []
   \<and> submitStallPayment
        (\<lambda>s. if s = ''500'' then Some 500 else if s = ''50.555'' then Some (10111 / 200)
              else if s = ''-1000000000'' then Some (- 1000000000) else None)
        \<lparr>stallId = ''S'', amountText = ''500''\<rparr>
        [\<lparr>t_stall_id = ''S'',
          items = ItemsArray [\<lparr>price = Some 100, quantity = Some 2, event_margin = Some 20\<rparr>],
          total = Some 160\<rparr>]
        [\<lparr>payment_type = Participant, p_stall_id = Some ''S'', amount_paid = Some 50,
          narration = None\<rparr>]
        [\<lparr>s_id = ''S'', counter_name = ''Tea'', is_verified = Some True, registration_fee = None\<rparr>]
      = (Rejected ''Amount exceeds remaining balance'',
         [\<lparr>payment_type = Participant, p_stall_id = Some ''S'', amount_paid = Some 50,
           narration = None\<rparr>])
   \<and> to_numeric 10 2 (10111 / 200) = Inr (1264 / 25)
   \<and> submitStallPayment
        (\<lambda>s. if s = ''500'' then Some 500 else if s = ''50.555'' then Some (10111 / 200)
              else if s = ''-1000000000'' then Some (- 1000000000) else None)
        \<lparr>stallId = ''S'', amountText = ''50.555''\<rparr>
        [\<lparr>t_stall_id = ''S'',
          items = ItemsArray [\<lparr>price = Some 100, quantity = Some 2, event_margin = Some 20\<rparr>],
          total = Some 160\<rparr>]
        [\<lparr>payment_type = Participant, p_stall_id = Some ''S'', amount_paid = Some 50,
          narration = None\<rparr>]
        [\<lparr>s_id = ''S'', counter_name = ''Tea'', is_verified = Some True, registration_fee = None\<rparr>]
      = (Recorded,
         [\<lparr>payment_type = Participant, p_stall_id = Some ''S'', amount_paid = Some (1264 / 25),
           narration = Some ''Payment to Tea''\<rparr>,
          \<lparr>payment_type = Participant, p_stall_id = Some ''S'', amount_paid = Some 50,
           narration = None\<rparr>])
   \<and> submitStallPayment
        (\<lambda>s. if s = ''500'' then Some 500 else if s = ''50.555'' then Some (10111 / 200)
              else if s = ''-1000000000'' then Some (- 1000000000) else None)
        \<lparr>stallId = ''S'', amountText = ''-1000000000''\<rparr>
        [\<lparr>t_stall_id = ''S'',
          items = ItemsArray [\<lparr>price = Some 100, quantity = Some 2, event_margin = Some 20\<rparr>],
          total = Some 160\<rparr>]
        [\<lparr>payment_type = Participant, p_stall_id = Some ''S'', amount_paid = Some 50,
          narration = None\<rparr>]
        [\<lparr>s_id = ''S'', counter_name = ''Tea'', is_verified = Some True, registration_fee = None\<rparr>]
      = (Failed Numeric_overflow,
         [\<lparr>payment_type = Participant, p_stall_id = Some ''S'', amount_paid = Some 50,
           narration = None\<rparr>])"
proof -
  let ?pf = "\<lambda>s. if s = ''500'' then Some (500::rat)
                else if s = ''50.555'' then Some (10111 / 200)
                else if s = ''-1000000000'' then Some (- 1000000000) else None"
  let ?txs = "[\<lparr>t_stall_id = ''S'',
          items = ItemsArray [\<lparr>price = Some 100, quantity = Some 2, event_margin = Some 20\<rparr>],
          total = Some 160\<rparr>]"
  let ?ps = "[\<lparr>payment_type = Participant, p_stall_id = Some ''S'', amount_paid = Some 50,
          narration = None\<rparr>]"
  let ?tbl = "[\<lparr>s_id = ''S'', counter_name = ''Tea'', is_verified = Some True,
          registration_fee = None\<rparr>]"
  let ?big = "\<lparr>stallId = ''S'', amountText = ''500''\<rparr>"
  let ?small = "\<lparr>stallId = ''S'', amountText = ''50.555''\<rparr>"
  let ?neg = "\<lparr>stallId = ''S'', amountText = ''-1000000000''\<rparr>"
  have d: "selectedStallDetails ''S'' ?txs ?ps (stalls_query ?tbl) =
      Some \<lparr>billedAmount = 160, billBalance = 160, alreadyPaid = 50, remainingBalance = 110,
            stallName = ''Tea''\<rparr>"
    by (simp add: selectedStallDetails_def stalls_query_def txBalance_def itemBalance_def
          js_or_def Let_def)
  have num: "to_numeric 10 2 (10111 / 200) = Inr (1264 / 25)"
    by code_simp
  have big: "submitStallPayment ?pf ?big ?txs ?ps ?tbl
      = (Rejected ''Amount exceeds remaining balance'', ?ps)"
    using handleStallPayment_guard [of ?big ?pf 500 ?txs ?ps ?tbl] d by simp
  have small: "submitStallPayment ?pf ?small ?txs ?ps ?tbl =
      (Recorded,
       \<lparr>payment_type = Participant, p_stall_id = Some ''S'', amount_paid = Some (1264 / 25),
        narration = Some ''Payment to Tea''\<rparr> # ?ps)"
    using handleStallPayment_guard [of ?small ?pf "10111 / 200" ?txs ?ps ?tbl _ "1264 / 25"] d num
    by simp
  have refused: "createPayment ?tbl ?ps
      \<lparr>payment_type = Participant, p_stall_id = Some ''S'', amount_paid = Some (- 1000000000),
       narration = Some ''Payment to Tea''\<rparr> = Inl Numeric_overflow"
    by code_simp
  have neg: "submitStallPayment ?pf ?neg ?txs ?ps ?tbl = (Failed Numeric_overflow, ?ps)"
    using handleStallPayment_guard [of ?neg ?pf "- 1000000000" ?txs ?ps ?tbl Numeric_overflow]
      d refused
    by simp
  from big small num neg show ?thesis by simp
qed

section \<open>The generated selling price\<close>

lemma to_numeric_2: "to_numeric p 2 x = Inr y \<Longrightarrow> y = round2 x"
  by (auto simp: to_numeric_def round2_def Let_def split: if_splits)

lemma selling_price_expr_ok:
  "selling_price_expr c em = Inr sp \<Longrightarrow>
     sp = map_option (\<lambda>m. round2 (c * (1 + m / 100))) em"
  by (auto simp: selling_price_expr_def store_numeric_def dest: to_numeric_2
      split: option.splits sum.splits)

lemma make_row_ok: "make_row i cost m = Inr r \<Longrightarrow> row_ok r"
  by (auto simp: make_row_def row_ok_def dest: selling_price_expr_ok
      split: option.splits sum.splits)

lemma map_rows_all:
  "map_rows f xs = Inr ys \<Longrightarrow> \<forall>x \<in> set xs. \<forall>y. f x = Inr y \<longrightarrow> P y \<Longrightarrow> list_all P ys"
  by (induction xs arbitrary: ys) (auto split: sum.splits)

lemma update_row_ok: "row_ok r \<Longrightarrow> update_row q r = Inr r' \<Longrightarrow> row_ok r'"
  by (auto simp: update_row_def dest: make_row_ok split: if_splits)

lemma exec_inv: "products_inv tbl \<Longrightarrow> products_inv (exec tbl st)"
proof (cases st)
  case (Insert q)
  assume "products_inv tbl"
  then show ?thesis using Insert
    by (auto simp: products_inv_def insert_product_def dest: make_row_ok
        split: sum.splits if_splits)
next
  case (Update q)
  assume inv: "products_inv tbl"
  show ?thesis
  proof (cases "update_products tbl q")
    case (Inl e)
    then show ?thesis using Update inv by simp
  next
    case (Inr tbl')
    then have "map_rows (update_row q) tbl = Inr tbl'"
      by (simp add: update_products_def split: if_splits)
    then have "list_all row_ok tbl'"
      using inv by (elim map_rows_all) (auto simp: products_inv_def list_all_iff dest: update_row_ok)
    then show ?thesis using Update Inr by (simp add: products_inv_def)
  qed
next
  case (Delete w)
  assume "products_inv tbl"
  then show ?thesis using Delete
    by (simp add: products_inv_def delete_products_def list_all_iff)
qed

lemma foldl_exec_inv: "products_inv tbl \<Longrightarrow> products_inv (foldl exec tbl stmts)"
  by (induction stmts arbitrary: tbl) (simp_all add: exec_inv)

text \<open>
  C9 (as amended). In every state of the products table that statements reach from
  the empty table, the stored selling price of every row is
  cost_price \<times> (1 + event_margin/100) rounded to two decimal places (ties away from
  zero), and NULL when the margin is NULL: every insert and update recomputes it, and
  an insert or update that gives the column a value of its own is refused and leaves
  the table as it was.
\<close>

theorem selling_price_generated:
  "(\<forall>r \<in> set (run stmts).
       selling_price r = map_option (\<lambda>em. round2 (cost_price r * (1 + em / 100))) (margin r))
   \<and> (ins_selling_price q \<noteq> Default \<longrightarrow> exec tbl (Insert q) = tbl)
   \<and> (upd_selling_price u \<noteq> None \<and> upd_selling_price u \<noteq> Some Default \<longrightarrow>
        exec tbl (Update u) = tbl)"
proof -
  have "products_inv []"
    by (simp add: products_inv_def)
  then have "products_inv (run stmts)"
    unfolding run_def by (rule foldl_exec_inv)
  then have "\<forall>r \<in> set (run stmts).
       selling_price r = map_option (\<lambda>em. round2 (cost_price r * (1 + em / 100))) (margin r)"
    by (simp add: products_inv_def list_all_iff row_ok_def)
  moreover have "ins_selling_price q \<noteq> Default \<longrightarrow> exec tbl (Insert q) = tbl"
    by (simp add: insert_product_def)
  moreover have "upd_selling_price u \<noteq> None \<and> upd_selling_price u \<noteq> Some Default \<longrightarrow>
        exec tbl (Update u) = tbl"
    by (simp add: update_products_def)
  ultimately show ?thesis by blast
qed

text \<open>
  The theorem after three inserts (a margin by default, a margin given, a margin
  NULL), an update of a cost price and a delete; then an insert and an update that
  try to write the selling price and change nothing.
\<close>

theorem selling_price_generated_witness:
  "run [Insert \<lparr>ins_id = ''p1'', ins_cost_price = Val (999 / 100), ins_event_margin = Default,
            ins_selling_price = Default\<rparr>,
        Insert \<lparr>ins_id = ''p2'', ins_cost_price = Val 100, ins_event_margin = Val (25 / 2),
            ins_selling_price = Default\<rparr>,
        Insert \<lparr>ins_id = ''p3'', ins_cost_price = Val 40, ins_event_margin = Null,
            ins_selling_price = Default\<rparr>,
        Update \<lparr>upd_where = (\<lambda>r. product_id r = ''p1''), upd_cost_price = Some (Val (1999 / 100)),
            upd_event_margin = None, upd_selling_price = None\<rparr>,
        Delete (\<lambda>r. product_id r = ''p2'')] =
        [\<lparr>product_id = ''p1'', cost_price = 1999 / 100, margin = Some 20,
          selling_price = Some (2399 / 100)\<rparr>,
         \<lparr>product_id = ''p3'', cost_price = 40, margin = None, selling_price = None\<rparr>]
   \<and> products_inv
        [\<lparr>product_id = ''p1'', cost_price = 1999 / 100, margin = Some 20,
          selling_price = Some (2399 / 100)\<rparr>,
         \<lparr>product_id = ''p3'', cost_price = 40, margin = None, selling_price = None\<rparr>]
   \<and> Val 50 \<noteq> (Default :: rat col)
   \<and> exec [\<lparr>product_id = ''p1'', cost_price = 1999 / 100, margin = Some 20,
          selling_price = Some (2399 / 100)\<rparr>,
         \<lparr>product_id = ''p3'', cost_price = 40, margin = None, selling_price = None\<rparr>]
        (Insert \<lparr>ins_id = ''p4'', ins_cost_price = Val 40, ins_event_margin = Val 10,
            ins_selling_price = Val 50\<rparr>) =
        [\<lparr>product_id = ''p1'', cost_price = 1999 / 100, margin = Some 20,
          selling_price = Some (2399 / 100)\<rparr>,
         \<lparr>product_id = ''p3'', cost_price = 40, margin = None, selling_price = None\<rparr>]
   \<and> Some (Val 1) \<noteq> (None :: rat col option) \<and> Some (Val 1) \<noteq> Some (Default :: rat col)
   \<and> exec [\<lparr>product_id = ''p1'', cost_price = 1999 / 100, margin = Some 20,
          selling_price = Some (2399 / 100)\<rparr>,
         \<lparr>product_id = ''p3'', cost_price = 40, margin = None, selling_price = None\<rparr>]
        (Update \<lparr>upd_where = (\<lambda>r. product_id r = ''p1''), upd_cost_price = None,
            upd_event_margin = None, upd_selling_price = Some (Val 1)\<rparr>) =
        [\<lparr>product_id = ''p1'', cost_price = 1999 / 100, margin = Some 20,
          selling_price = Some (2399 / 100)\<rparr>,
         \<lparr>product_id = ''p3'', cost_price = 40, margin = None, selling_price = None\<rparr>]"
proof -
  let ?S = "[Insert \<lparr>ins_id = ''p1'', ins_cost_price = Val (999 / 100), ins_event_margin = Default,
            ins_selling_price = Default\<rparr>,
        Insert \<lparr>ins_id = ''p2'', ins_cost_price = Val 100, ins_event_margin = Val (25 / 2),
            ins_selling_price = Default\<rparr>,
        Insert \<lparr>ins_id = ''p3'', ins_cost_price = Val 40, ins_event_margin = Null,
            ins_selling_price = Default\<rparr>,
        Update \<lparr>upd_where = (\<lambda>r. product_id r = ''p1''), upd_cost_price = Some (Val (1999 / 100)),
            upd_event_margin = None, upd_selling_price = None\<rparr>,
        Delete (\<lambda>r. product_id r = ''p2'')]"
  let ?T = "[\<lparr>product_id = ''p1'', cost_price = 1999 / 100, margin = Some 20,
          selling_price = Some (2399 / 100)\<rparr>,
         \<lparr>product_id = ''p3'', cost_price = 40, margin = None, selling_price = None\<rparr>]"
  let ?q = "\<lparr>ins_id = ''p4'', ins_cost_price = Val 40, ins_event_margin = Val 10,
            ins_selling_price = Val 50\<rparr>"
  let ?u = "\<lparr>upd_where = (\<lambda>r. product_id r = ''p1''), upd_cost_price = None,
            upd_event_margin = None, upd_selling_price = Some (Val 1)\<rparr>"
  have r: "run ?S = ?T"
    by code_simp
  have "products_inv (run ?S)"
    using selling_price_generated [of ?S ?q ?T ?u]
    by (simp add: products_inv_def list_all_iff row_ok_def)
  then have inv: "products_inv ?T"
    by (simp only: r)
  have ins: "exec ?T (Insert ?q) = ?T"
    using selling_price_generated [of ?S ?q ?T ?u] by simp
  have upd: "exec ?T (Update ?u) = ?T"
    using selling_price_generated [of ?S ?q ?T ?u] by simp
  from r inv ins upd show ?thesis by simp
qed

text \<open>
  C9 as stated fails where the product of cost price and margin has more than two
  decimal places: a product of cost price 9.99 at the default margin 20 is stored with
  the selling price 11.99, where 9.99 \<times> (1 + 20/100) is 11.988.
\<close>

theorem selling_price_rounded_counterexample:
  "run [Insert \<lparr>ins_id = ''p1'', ins_cost_price = Val (999 / 100), ins_event_margin = Default,
               ins_selling_price = Default\<rparr>] =
     [\<lparr>product_id = ''p1'', cost_price = 999 / 100, margin = Some 20,
       selling_price = Some (1199 / 100)\<rparr>]
   \<and> spec_selling_price (999 / 100) 20 = 2997 / 250"
  by code_simp

end
